theory Spec2Isabelle
  imports Complex_Main "HOL-Library.AList" "HOL-Library.Char_ord" "HOL-Library.List_Lexorder"
begin

section \<open>Solar analysis: the calculation layer\<close>

text \<open>
  The development embeds \<^verbatim>\<open>src/lib/utils/data-processing.ts\<close> and
  \<^verbatim>\<open>src/lib/utils/advanced-calculations.ts\<close>.

  Conventions of the embedding.
  \<^item> A TypeScript \<^verbatim>\<open>number\<close> holding an energy quantity, a rate or a capacity is a
    \<^typ>\<open>real\<close>, the value of a finite double. \<^verbatim>\<open>NaN\<close> and the infinities are outside
    the model.
  \<^item> The code computes in IEEE-754 double precision. Where a property depends on how
    results are rounded, the function takes the rounding as its first argument \<open>rd\<close>:
    each sum, difference, product and quotient of the source is \<open>rd\<close> of the exact
    result, and the literal \<^verbatim>\<open>0.7\<close> is \<open>rd (7 / 10)\<close>. The rounding of the code is
    \<open>round64\<close> below. The derivation of a record, the hourly aggregation, the summary,
    the filter and the hour classification are modelled with exact arithmetic.
  \<^item> The calendar fields (\<^verbatim>\<open>hour\<close>, \<^verbatim>\<open>month\<close>, ...) are integers.
  \<^item> An optional field \<^verbatim>\<open>f?: number\<close> is a \<^typ>\<open>real option\<close>; \<^verbatim>\<open>undefined\<close> is
    \<^term>\<open>None\<close>.
  \<^item> A \<^verbatim>\<open>Map\<close> is an association list in insertion order: a new key is appended, an
    existing key is updated in place. A plain object used as a dictionary is such a list
    too, with the inherited properties and the enumeration order of objects written out.
  \<^item> \<^verbatim>\<open>forEach\<close> is \<^term>\<open>foldl\<close> over the array with the mutated variables as the state;
    \<^verbatim>\<open>Array.prototype.sort\<close> is the stable insertion sort \<^term>\<open>sort_key\<close>.
  \<^item> A \<^verbatim>\<open>TypeError\<close> is the value \<^term>\<open>None\<close> of an option type.
\<close>

subsection \<open>Data model (\<^verbatim>\<open>src/lib/types\<close>)\<close>

record SolarDataPoint =
  timestamp :: string
  date :: string
  time :: string
  hour :: int
  day :: int
  month :: int
  monthName :: string
  year :: int
  dayOfWeek :: int
  dayName :: string
  isWeekend :: bool
  quarter :: int
  weekOfYear :: int
  solarProduction :: real
  energyDemand :: real
  netEnergy :: "real option"
  gridImport :: "real option"
  excessExport :: "real option"

text \<open>The idiom \<^verbatim>\<open>(x || 0)\<close> on an optional number: \<^verbatim>\<open>undefined\<close> and \<open>0\<close> give \<open>0\<close>.\<close>

definition orZero :: "real option \<Rightarrow> real" where
  "orZero x = (case x of None \<Rightarrow> 0 | Some v \<Rightarrow> v)"

subsection \<open>Record model\<close>

definition calculateDerivedMetrics :: "SolarDataPoint \<Rightarrow> SolarDataPoint" where
  "calculateDerivedMetrics dataPoint =
     (let netEnergy' = solarProduction dataPoint - energyDemand dataPoint;
          gridImport' = (if netEnergy' < 0 then \<bar>netEnergy'\<bar> else 0);
          excessExport' = (if netEnergy' > 0 then netEnergy' else 0)
      in dataPoint\<lparr>netEnergy := Some netEnergy',
                    gridImport := Some gridImport',
                    excessExport := Some excessExport'\<rparr>)"

text \<open>A fixed record used to instantiate the theorems below at concrete inputs.\<close>

definition samplePoint :: "string \<Rightarrow> int \<Rightarrow> real \<Rightarrow> real \<Rightarrow> SolarDataPoint" where
  "samplePoint d h s e =
     \<lparr>timestamp = [], date = d, time = [], hour = h, day = 1, month = 1,
      monthName = ''January'', year = 2025, dayOfWeek = 3, dayName = ''Wednesday'',
      isWeekend = False, quarter = 1, weekOfYear = 1,
      solarProduction = s, energyDemand = e,
      netEnergy = None, gridImport = None, excessExport = None\<rparr>"

subsection \<open>Double-precision arithmetic\<close>

text \<open>
  Rounding to the nearest double, ties to the even significand, with gradual underflow:
  a real \<open>x\<close> is scaled by the unit in the last place of its binade (the exponent is at
  least \<open>-1022\<close>, the significand has 53 bits), rounded to the nearest integer, and scaled
  back. A result of magnitude \<open>2 ^ 1024\<close> or more is an infinity in the code and is
  outside the model.
\<close>

definition roundEven :: "real \<Rightarrow> int" where
  "roundEven y =
     (let n = \<lfloor>y\<rfloor>
      in if y - of_int n < 1 / 2 then n
         else if y - of_int n > 1 / 2 then n + 1
         else if even n then n else n + 1)"

definition pow2 :: "int \<Rightarrow> real" where
  "pow2 i = (if 0 \<le> i then 2 ^ nat i else 1 / 2 ^ nat (- i))"

definition expo64 :: "real \<Rightarrow> int" where
  "expo64 x = max (- 1022) \<lfloor>log 2 \<bar>x\<bar>\<rfloor>"

definition ulp64 :: "real \<Rightarrow> real" where
  "ulp64 x = pow2 (expo64 x - 52)"

definition round64 :: "real \<Rightarrow> real" where
  "round64 x = (if x = 0 then 0 else ulp64 x * of_int (roundEven (x / ulp64 x)))"

text \<open>
  What the general theorems use of a rounding: zero is kept, the order is kept, and a
  rounded value is not rounded again.
\<close>

definition rounding :: "(real \<Rightarrow> real) \<Rightarrow> bool" where
  "rounding rd \<longleftrightarrow> rd 0 = 0 \<and> (\<forall>x y. x \<le> y \<longrightarrow> rd x \<le> rd y) \<and> (\<forall>x. rd (rd x) = rd x)"

text \<open>
  A running total \<^verbatim>\<open>t += v\<close> over a list of values, started at 0; the exact running
  totals; and the values that a rounding leaves as they are.
\<close>

definition sumR :: "(real \<Rightarrow> real) \<Rightarrow> real list \<Rightarrow> real" where
  "sumR rd vs = foldl (\<lambda>t v. rd (t + v)) 0 vs"


definition exact :: "(real \<Rightarrow> real) \<Rightarrow> real list \<Rightarrow> bool" where
  "exact rd vs = list_all (\<lambda>v. rd v = v) vs"

subsection \<open>Aggregation engine (\<^verbatim>\<open>data-processing.ts\<close>)\<close>




record HourlyAverage =
  hourly_hour :: int
  hourly_solarProduction :: real
  hourly_energyDemand :: real
  hourly_netEnergy :: real
  hourly_gridImport :: real
  hourly_excessExport :: real

definition hourlyInit :: "(int \<times> HourlyAverage) list \<times> (int \<times> nat) list" where
  "hourlyInit =
     (map (\<lambda>h. (h, \<lparr>hourly_hour = h, hourly_solarProduction = 0, hourly_energyDemand = 0,
                      hourly_netEnergy = 0, hourly_gridImport = 0, hourly_excessExport = 0\<rparr>)) [0..23],
      map (\<lambda>h. (h, 0)) [0..23])"

text \<open>
  One iteration of the summing loop of \<^verbatim>\<open>aggregateByHour\<close>. For an hour that is not a
  key, \<^verbatim>\<open>hourlyMap.get(hour)\<close> is \<^verbatim>\<open>undefined\<close> and the first update of
  \<^verbatim>\<open>hourData\<close> raises a \<^verbatim>\<open>TypeError\<close>. Both maps carry the same keys.
\<close>

definition hourlyStep ::
  "((int \<times> HourlyAverage) list \<times> (int \<times> nat) list) option \<Rightarrow> SolarDataPoint
    \<Rightarrow> ((int \<times> HourlyAverage) list \<times> (int \<times> nat) list) option" where
  "hourlyStep state point =
     (case state of
        None \<Rightarrow> None
      | Some (hourlyMap, hourCounts) \<Rightarrow>
          (case (map_of hourlyMap (hour point), map_of hourCounts (hour point)) of
             (Some hourData, Some c) \<Rightarrow>
               Some (AList.update (hour point)
                       (hourData\<lparr>hourly_solarProduction := hourly_solarProduction hourData + solarProduction point,
                                 hourly_energyDemand := hourly_energyDemand hourData + energyDemand point,
                                 hourly_gridImport := hourly_gridImport hourData + orZero (gridImport point),
                                 hourly_excessExport := hourly_excessExport hourData + orZero (excessExport point)\<rparr>)
                       hourlyMap,
                     AList.update (hour point) (c + 1) hourCounts)
           | _ \<Rightarrow> None))"

text \<open>The averaging loop: \<^verbatim>\<open>hourCounts.get(hourData.hour) || 1\<close> divides by 1 for a count of 0.\<close>

definition hourlyAverageOf :: "(int \<times> nat) list \<Rightarrow> HourlyAverage \<Rightarrow> HourlyAverage" where
  "hourlyAverageOf hourCounts hourData =
     (let count = (case map_of hourCounts (hourly_hour hourData) of
                     None \<Rightarrow> 1
                   | Some c \<Rightarrow> if c = 0 then 1 else c);
          sp = hourly_solarProduction hourData / real count;
          ed = hourly_energyDemand hourData / real count
      in hourData\<lparr>hourly_solarProduction := sp,
                   hourly_energyDemand := ed,
                   hourly_gridImport := hourly_gridImport hourData / real count,
                   hourly_excessExport := hourly_excessExport hourData / real count,
                   hourly_netEnergy := sp - ed\<rparr>)"

definition aggregateByHour :: "SolarDataPoint list \<Rightarrow> HourlyAverage list option" where
  "aggregateByHour data =
     (case foldl hourlyStep (Some hourlyInit) data of
        None \<Rightarrow> None
      | Some (hourlyMap, hourCounts) \<Rightarrow> Some (map (hourlyAverageOf hourCounts) (map snd hourlyMap)))"

subsection \<open>Summary calculator\<close>

record DataSummary =
  totalSolarProduction :: real
  totalEnergyDemand :: real
  totalGridImport :: real
  totalExcessExport :: real
  averageDailySolarProduction :: real
  averageDailyEnergyDemand :: real
  peakSolarProduction :: real
  peakEnergyDemand :: real
  selfConsumptionPercentage :: real
  gridDependencyPercentage :: real

text \<open>
  The loop state of \<^verbatim>\<open>calculateSummary\<close>, in the order of the declarations: the four
  totals, then the two peaks.
\<close>

definition summaryStep ::
  "real \<times> real \<times> real \<times> real \<times> real \<times> real \<Rightarrow> SolarDataPoint
     \<Rightarrow> real \<times> real \<times> real \<times> real \<times> real \<times> real" where
  "summaryStep acc point =
     (case acc of (tsp, ted, tgi, tee, psp, ped) \<Rightarrow>
        (tsp + solarProduction point,
         ted + energyDemand point,
         tgi + orZero (gridImport point),
         tee + orZero (excessExport point),
         max psp (solarProduction point),
         max ped (energyDemand point)))"

text \<open>\<^verbatim>\<open>new Set(data.map(point => point.date)).size || 1\<close>\<close>

definition dayCount :: "SolarDataPoint list \<Rightarrow> nat" where
  "dayCount data =
     (let uniqueDates = remdups (map date data)
      in if length uniqueDates = 0 then 1 else length uniqueDates)"

definition calculateSummary :: "SolarDataPoint list \<Rightarrow> DataSummary" where
  "calculateSummary data =
     (case foldl summaryStep (0, 0, 0, 0, 0, 0) data of
        (tsp, ted, tgi, tee, psp, ped) \<Rightarrow>
          \<lparr>totalSolarProduction = tsp,
           totalEnergyDemand = ted,
           totalGridImport = tgi,
           totalExcessExport = tee,
           averageDailySolarProduction = tsp / real (dayCount data),
           averageDailyEnergyDemand = ted / real (dayCount data),
           peakSolarProduction = psp,
           peakEnergyDemand = ped,
           selfConsumptionPercentage = (if tsp > 0 then ((tsp - tee) / tsp) * 100 else 0),
           gridDependencyPercentage = (if ted > 0 then (tgi / ted) * 100 else 0)\<rparr>)"

text \<open>
  The same function with the rounding of its arithmetic as a parameter, for the
  comparison of its totals with the daily aggregation.
\<close>

definition summaryStepR ::
  "(real \<Rightarrow> real) \<Rightarrow> real \<times> real \<times> real \<times> real \<times> real \<times> real \<Rightarrow> SolarDataPoint
     \<Rightarrow> real \<times> real \<times> real \<times> real \<times> real \<times> real" where
  "summaryStepR rd acc point =
     (case acc of (tsp, ted, tgi, tee, psp, ped) \<Rightarrow>
        (rd (tsp + solarProduction point),
         rd (ted + energyDemand point),
         rd (tgi + orZero (gridImport point)),
         rd (tee + orZero (excessExport point)),
         max psp (solarProduction point),
         max ped (energyDemand point)))"

definition calculateSummaryR :: "(real \<Rightarrow> real) \<Rightarrow> SolarDataPoint list \<Rightarrow> DataSummary" where
  "calculateSummaryR rd data =
     (case foldl (summaryStepR rd) (0, 0, 0, 0, 0, 0) data of
        (tsp, ted, tgi, tee, psp, ped) \<Rightarrow>
          \<lparr>totalSolarProduction = tsp,
           totalEnergyDemand = ted,
           totalGridImport = tgi,
           totalExcessExport = tee,
           averageDailySolarProduction = rd (tsp / real (dayCount data)),
           averageDailyEnergyDemand = rd (ted / real (dayCount data)),
           peakSolarProduction = psp,
           peakEnergyDemand = ped,
           selfConsumptionPercentage = (if tsp > 0 then rd (rd (rd (tsp - tee) / tsp) * 100) else 0),
           gridDependencyPercentage = (if ted > 0 then rd (rd (tgi / ted) * 100) else 0)\<rparr>)"

subsection \<open>Filter engine\<close>

record FilterOptions =
  startDate :: "string option"
  endDate :: "string option"
  months :: "int list option"
  hours :: "int list option"
  weekdaysOnly :: "bool option"
  weekendsOnly :: "bool option"

text \<open>
  The callback of \<^verbatim>\<open>data.filter\<close>. A string is truthy when it is not empty, an array
  always, a boolean when it is \<^verbatim>\<open>true\<close>; dates are compared as strings, character
  by character in the order of the character codes.
\<close>

definition keepPoint :: "FilterOptions \<Rightarrow> SolarDataPoint \<Rightarrow> bool" where
  "keepPoint filters point =
     (if (case startDate filters of None \<Rightarrow> False | Some s \<Rightarrow> s \<noteq> [] \<and> date point < s) then False
      else if (case endDate filters of None \<Rightarrow> False | Some e \<Rightarrow> e \<noteq> [] \<and> date point > e) then False
      else if (case months filters of None \<Rightarrow> False
               | Some ms \<Rightarrow> length ms > 0 \<and> month point \<notin> set ms) then False
      else if (case hours filters of None \<Rightarrow> False
               | Some hs \<Rightarrow> length hs > 0 \<and> hour point \<notin> set hs) then False
      else if (weekdaysOnly filters = Some True \<and> isWeekend point) then False
      else if (weekendsOnly filters = Some True \<and> \<not> isWeekend point) then False
      else True)"

definition filterData :: "SolarDataPoint list \<Rightarrow> FilterOptions \<Rightarrow> SolarDataPoint list" where
  "filterData data filters = filter (keepPoint filters) data"

subsection \<open>Advanced analytics (\<^verbatim>\<open>advanced-calculations.ts\<close>)\<close>




record SelfSufficiency =
  totalSelfConsumed :: real
  selfSufficiencyPercentage :: real
  ss_selfConsumptionPercentage :: real
  ss_gridDependencyPercentage :: real
  selfSufficientHours :: nat
  excessProductionHours :: nat
  gridDependentHours :: nat
  noProductionHours :: nat
  hoursCounted :: nat

text \<open>The variables that the loop of \<^verbatim>\<open>calculateSelfSufficiency\<close> mutates.\<close>

record SelfSufficiencyLoop =
  l_totalSolarProduction :: real
  l_totalEnergyDemand :: real
  l_totalGridImport :: real
  l_totalExcessExport :: real
  l_totalSelfConsumed :: real
  l_selfSufficientHours :: nat
  l_excessProductionHours :: nat
  l_gridDependentHours :: nat
  l_noProductionHours :: nat

definition selfSufficiencyStep :: "SelfSufficiencyLoop \<Rightarrow> SolarDataPoint \<Rightarrow> SelfSufficiencyLoop" where
  "selfSufficiencyStep l point =
     (let l1 = l\<lparr>l_totalSolarProduction := l_totalSolarProduction l + solarProduction point,
                 l_totalEnergyDemand := l_totalEnergyDemand l + energyDemand point,
                 l_totalGridImport := l_totalGridImport l + orZero (gridImport point),
                 l_totalExcessExport := l_totalExcessExport l + orZero (excessExport point),
                 l_totalSelfConsumed := l_totalSelfConsumed l
                     + (solarProduction point - orZero (excessExport point))\<rparr>
      in if solarProduction point = 0 then
           l1\<lparr>l_noProductionHours := l_noProductionHours l1 + 1\<rparr>
         else if orZero (gridImport point) = 0 \<and> orZero (excessExport point) = 0 then
           l1\<lparr>l_selfSufficientHours := l_selfSufficientHours l1 + 1\<rparr>
         else if orZero (excessExport point) > 0 then
           l1\<lparr>l_excessProductionHours := l_excessProductionHours l1 + 1\<rparr>
         else if orZero (gridImport point) > 0 then
           l1\<lparr>l_gridDependentHours := l_gridDependentHours l1 + 1\<rparr>
         else l1)"

definition calculateSelfSufficiency :: "SolarDataPoint list \<Rightarrow> SelfSufficiency" where
  "calculateSelfSufficiency data =
     (let l = foldl selfSufficiencyStep
                \<lparr>l_totalSolarProduction = 0, l_totalEnergyDemand = 0, l_totalGridImport = 0,
                 l_totalExcessExport = 0, l_totalSelfConsumed = 0, l_selfSufficientHours = 0,
                 l_excessProductionHours = 0, l_gridDependentHours = 0, l_noProductionHours = 0\<rparr>
                data
      in \<lparr>totalSelfConsumed = l_totalSelfConsumed l,
          selfSufficiencyPercentage =
            (if l_totalEnergyDemand l > 0 then (l_totalSelfConsumed l / l_totalEnergyDemand l) * 100 else 0),
          ss_selfConsumptionPercentage =
            (if l_totalSolarProduction l > 0 then (l_totalSelfConsumed l / l_totalSolarProduction l) * 100 else 0),
          ss_gridDependencyPercentage =
            (if l_totalEnergyDemand l > 0 then (l_totalGridImport l / l_totalEnergyDemand l) * 100 else 0),
          selfSufficientHours = l_selfSufficientHours l,
          excessProductionHours = l_excessProductionHours l,
          gridDependentHours = l_gridDependentHours l,
          noProductionHours = l_noProductionHours l,
          hoursCounted = length data\<rparr>)"

text \<open>
  Grouping by day, as both \<^verbatim>\<open>calculateStoragePotential\<close> and
  \<^verbatim>\<open>calculatePeakShaving\<close> do it, in a plain object \<^verbatim>\<open>dailyData = {}\<close> that maps a
  date to the array of its records. A plain object inherits the properties of
  \<^verbatim>\<open>Object.prototype\<close>: for a date that names one of them and is not stored yet,
  \<^verbatim>\<open>dailyData[point.date]\<close> is a function or an object, no array is stored, and the call
  of its missing \<^verbatim>\<open>push\<close> raises a \<^verbatim>\<open>TypeError\<close>.
\<close>

definition objectPrototypeKeys :: "string list" where
  "objectPrototypeKeys =
     [''constructor'', ''__defineGetter__'', ''__defineSetter__'', ''hasOwnProperty'',
      ''__lookupGetter__'', ''__lookupSetter__'', ''isPrototypeOf'', ''propertyIsEnumerable'',
      ''toString'', ''valueOf'', ''__proto__'', ''toLocaleString'']"

definition groupStep :: "(string \<times> SolarDataPoint list) list option \<Rightarrow> SolarDataPoint
                          \<Rightarrow> (string \<times> SolarDataPoint list) list option" where
  "groupStep dailyData point =
     (case dailyData of
        None \<Rightarrow> None
      | Some m \<Rightarrow>
          (case map_of m (date point) of
             Some dayPoints \<Rightarrow> Some (AList.update (date point) (dayPoints @ [point]) m)
           | None \<Rightarrow>
               if date point \<in> set objectPrototypeKeys then None
               else Some (AList.update (date point) [point] m)))"

definition groupByDate :: "SolarDataPoint list \<Rightarrow> (string \<times> SolarDataPoint list) list option" where
  "groupByDate data = foldl groupStep (Some []) data"

text \<open>
  \<^verbatim>\<open>Object.values\<close> enumerates the keys that are array indices (the decimal numerals
  of the integers below \<open>2 ^ 32 - 1\<close>, without leading zeros) first, in ascending numeric
  order, and then the other keys in the order of their insertion.
\<close>

definition isDigit :: "char \<Rightarrow> bool" where
  "isDigit c \<longleftrightarrow> CHR ''0'' \<le> c \<and> c \<le> CHR ''9''"

definition decimalValue :: "string \<Rightarrow> nat" where
  "decimalValue s = foldl (\<lambda>a c. 10 * a + (of_char c - 48)) 0 s"

definition isArrayIndex :: "string \<Rightarrow> bool" where
  "isArrayIndex s \<longleftrightarrow>
     s \<noteq> [] \<and> list_all isDigit s \<and> (length s = 1 \<or> hd s \<noteq> CHR ''0'')
     \<and> decimalValue s < 2 ^ 32 - 1"

definition objectValues :: "(string \<times> 'a) list \<Rightarrow> 'a list" where
  "objectValues m =
     map snd (sort_key (\<lambda>e. decimalValue (fst e)) (filter (\<lambda>e. isArrayIndex (fst e)) m))
     @ map snd (filter (\<lambda>e. \<not> isArrayIndex (fst e)) m)"

text \<open>The variables of one day of the storage simulation.\<close>

record DayStorage =
  dailyExcess :: real
  dailyDeficit :: real
  dailyStorageLevel :: real
  dailyAdditionalSelfConsumption :: real
  maxStorageNeeded :: real

definition dayStorageInit :: DayStorage where
  "dayStorageInit = \<lparr>dailyExcess = 0, dailyDeficit = 0, dailyStorageLevel = 0,
                     dailyAdditionalSelfConsumption = 0, maxStorageNeeded = 0\<rparr>"

definition storageStep :: "(real \<Rightarrow> real) \<Rightarrow> DayStorage \<Rightarrow> SolarDataPoint \<Rightarrow> DayStorage" where
  "storageStep rd s point =
     (let excess = orZero (excessExport point);
          deficit = orZero (gridImport point);
          s1 = s\<lparr>dailyExcess := rd (dailyExcess s + excess),
                 dailyDeficit := rd (dailyDeficit s + deficit)\<rparr>;
          s2 = (if excess > 0 then
                  s1\<lparr>dailyStorageLevel := rd (dailyStorageLevel s1 + excess)\<rparr>
                else if deficit > 0 \<and> dailyStorageLevel s1 > 0 then
                  (let energyFromStorage = min (dailyStorageLevel s1) deficit
                   in s1\<lparr>dailyStorageLevel := rd (dailyStorageLevel s1 - energyFromStorage),
                         dailyAdditionalSelfConsumption :=
                           rd (dailyAdditionalSelfConsumption s1 + energyFromStorage)\<rparr>)
                else s1)
      in s2\<lparr>maxStorageNeeded := max (maxStorageNeeded s2) (dailyStorageLevel s2)\<rparr>)"

definition simulateDay :: "(real \<Rightarrow> real) \<Rightarrow> SolarDataPoint list \<Rightarrow> DayStorage" where
  "simulateDay rd dayPoints = foldl (storageStep rd) dayStorageInit (sort_key hour dayPoints)"

record StoragePotential =
  totalExcessEnergy :: real
  totalDeficitEnergy :: real
  potentialAdditionalSelfConsumption :: real
  optimalStorageCapacity :: real
  currentSelfSufficiency :: real
  potentialSelfSufficiency :: real
  selfSufficiencyImprovement :: real
  storageUtilizationRate :: real

text \<open>
  The loop over the days; the state is excess, deficit, additional self-consumption and
  optimal capacity.
\<close>

definition storageDayStep :: "(real \<Rightarrow> real) \<Rightarrow> real \<times> real \<times> real \<times> real \<Rightarrow> SolarDataPoint list
                               \<Rightarrow> real \<times> real \<times> real \<times> real" where
  "storageDayStep rd acc dayPoints =
     (case acc of (tex, tde, pasc, osc) \<Rightarrow>
        (let s = simulateDay rd dayPoints
         in (rd (tex + dailyExcess s), rd (tde + dailyDeficit s),
             rd (pasc + dailyAdditionalSelfConsumption s), max osc (maxStorageNeeded s))))"

definition calculateStoragePotential :: "(real \<Rightarrow> real) \<Rightarrow> SolarDataPoint list \<Rightarrow> StoragePotential option" where
  "calculateStoragePotential rd data =
     (case groupByDate data of
        None \<Rightarrow> None
      | Some dailyData \<Rightarrow>
          (case foldl (storageDayStep rd) (0, 0, 0, 0) (objectValues dailyData) of
             (tex, tde, pasc, osc) \<Rightarrow>
               (let totalEnergyDemand' = foldl (\<lambda>sum point. rd (sum + energyDemand point)) 0 data;
                    currentSelfConsumed =
                      foldl (\<lambda>sum point.
                               rd (sum + rd (solarProduction point - orZero (excessExport point))))
                            0 data;
                    current = (if totalEnergyDemand' > 0
                               then rd (rd (currentSelfConsumed / totalEnergyDemand') * 100) else 0);
                    potential = (if totalEnergyDemand' > 0
                                 then rd (rd (rd (currentSelfConsumed + pasc) / totalEnergyDemand') * 100)
                                 else 0)
                in Some \<lparr>totalExcessEnergy = tex,
                         totalDeficitEnergy = tde,
                         potentialAdditionalSelfConsumption = pasc,
                         optimalStorageCapacity = osc,
                         currentSelfSufficiency = current,
                         potentialSelfSufficiency = potential,
                         selfSufficiencyImprovement = rd (potential - current),
                         storageUtilizationRate = (if tex > 0 then rd (rd (pasc / tex) * 100) else 0)\<rparr>)))"

text \<open>
  The \<^verbatim>\<open>map\<close> of \<^verbatim>\<open>calculatePeakShaving\<close> over one day, with the variable
  \<^verbatim>\<open>storageLevel\<close> that its callback mutates as an argument.
\<close>

fun shave :: "(real \<Rightarrow> real) \<Rightarrow> real \<Rightarrow> real \<Rightarrow> real \<Rightarrow> SolarDataPoint list \<Rightarrow> SolarDataPoint list" where
  "shave rd peakDemand maxDischargeRate storageLevel [] = []"
| "shave rd peakDemand maxDischargeRate storageLevel (point # rest) =
     (if energyDemand point > rd (peakDemand * rd (7 / 10)) \<and> storageLevel > 0 then
        (let dischargeNeeded =
               min (rd (energyDemand point - rd (solarProduction point - orZero (excessExport point))))
                   (min maxDischargeRate storageLevel)
         in if dischargeNeeded > 0 then
              point\<lparr>gridImport := Some (max 0 (rd (orZero (gridImport point) - dischargeNeeded)))\<rparr>
                # shave rd peakDemand maxDischargeRate (rd (storageLevel - dischargeNeeded)) rest
            else point # shave rd peakDemand maxDischargeRate storageLevel rest)
      else point # shave rd peakDemand maxDischargeRate storageLevel rest)"

text \<open>
  One day of peak shaving: the day's peak demand and its peak after shaving. On an empty
  day \<^verbatim>\<open>peakDemandPoint\<close> is \<^verbatim>\<open>undefined\<close> and reading its demand raises a
  \<^verbatim>\<open>TypeError\<close>.
\<close>

definition peakShaveDay :: "(real \<Rightarrow> real) \<Rightarrow> real \<Rightarrow> real \<Rightarrow> SolarDataPoint list \<Rightarrow> (real \<times> real) option" where
  "peakShaveDay rd storageCapacity maxDischargeRate dayPoints =
     (let sorted = sort_key hour dayPoints
      in case sort_key (\<lambda>p. - energyDemand p) sorted of
           [] \<Rightarrow> None
         | peakDemandPoint # _ \<Rightarrow>
             (let peakDemand = energyDemand peakDemandPoint;
                  modifiedDemand = shave rd peakDemand maxDischargeRate storageCapacity sorted
              in case map (\<lambda>p. orZero (gridImport p)) modifiedDemand of
                   [] \<Rightarrow> None
                 | g # gs \<Rightarrow> Some (peakDemand, foldl max g gs)))"

record PeakShaving =
  totalPeakDemand :: real
  totalPeakDemandAfterShaving :: real
  totalPeakReduction :: real
  peakReductionPercentage :: real
  recommendedStorageCapacity :: real
  daysAnalyzed :: nat

definition peakDayStep :: "(real \<Rightarrow> real) \<Rightarrow> real \<Rightarrow> real \<Rightarrow> (real \<times> real \<times> real) option
                            \<Rightarrow> SolarDataPoint list \<Rightarrow> (real \<times> real \<times> real) option" where
  "peakDayStep rd storageCapacity maxDischargeRate acc dayPoints =
     (case acc of
        None \<Rightarrow> None
      | Some (tpd, tpdas, tpr) \<Rightarrow>
          (case peakShaveDay rd storageCapacity maxDischargeRate dayPoints of
             None \<Rightarrow> None
           | Some (peakDemand, peakDemandAfterShaving) \<Rightarrow>
               Some (rd (tpd + peakDemand), rd (tpdas + peakDemandAfterShaving),
                     rd (tpr + rd (peakDemand - peakDemandAfterShaving)))))"

definition calculatePeakShaving :: "(real \<Rightarrow> real) \<Rightarrow> SolarDataPoint list \<Rightarrow> real \<Rightarrow> real \<Rightarrow> PeakShaving option" where
  "calculatePeakShaving rd data storageCapacity maxDischargeRate =
     (case groupByDate data of
        None \<Rightarrow> None
      | Some dailyData \<Rightarrow>
          (case foldl (peakDayStep rd storageCapacity maxDischargeRate) (Some (0, 0, 0))
                  (objectValues dailyData) of
             None \<Rightarrow> None
           | Some (tpd, tpdas, tpr) \<Rightarrow>
               Some \<lparr>totalPeakDemand = tpd,
                     totalPeakDemandAfterShaving = tpdas,
                     totalPeakReduction = tpr,
                     peakReductionPercentage = (if tpd > 0 then rd (rd (tpr / tpd) * 100) else 0),
                     recommendedStorageCapacity = storageCapacity,
                     daysAnalyzed = length dailyData\<rparr>))"

subsection \<open>Sample inputs\<close>

text \<open>
  The four records of \<^verbatim>\<open>tests/advanced-calculations.test.ts\<close>, derived: three hours
  of one day and one hour of the next.
\<close>

definition sampleDay1 :: "SolarDataPoint list" where
  "sampleDay1 = map calculateDerivedMetrics
     [samplePoint ''2025-01-01'' 10 5 2, samplePoint ''2025-01-01'' 11 6 3,
      samplePoint ''2025-01-01'' 20 0 4]"

definition sampleDay2 :: "SolarDataPoint list" where
  "sampleDay2 = map calculateDerivedMetrics [samplePoint ''2025-01-02'' 10 (9/2) (5/2)]"

definition derivedSample :: "SolarDataPoint list" where
  "derivedSample = sampleDay1 @ sampleDay2"

subsection \<open>Hour classification, in the words of the specification\<close>

text \<open>
  Section 4.5 of the specification classifies an hour by four conditions tried in this
  order: no production, self-sufficient, excess production, grid dependent. The value is
  \<^term>\<open>None\<close> when none of the four conditions holds.
\<close>

datatype HourCategory = NoProduction | SelfSufficient | ExcessProduction | GridDependent

definition hourCategory :: "SolarDataPoint \<Rightarrow> HourCategory option" where
  "hourCategory p =
     (if solarProduction p = 0 then Some NoProduction
      else if orZero (gridImport p) = 0 \<and> orZero (excessExport p) = 0 then Some SelfSufficient
      else if orZero (excessExport p) > 0 then Some ExcessProduction
      else if orZero (gridImport p) > 0 then Some GridDependent
      else None)"

text \<open>The options object with every predicate absent.\<close>

definition noFilters :: FilterOptions where
  "noFilters = \<lparr>startDate = None, endDate = None, months = None, hours = None,
                weekdaysOnly = None, weekendsOnly = None\<rparr>"

text \<open>A record that no derivation produces: production without demand, and a negative export.\<close>

definition negativeExportPoint :: SolarDataPoint where
  "negativeExportPoint =
     (samplePoint ''2025-01-01'' 10 1 0)\<lparr>gridImport := Some 0, excessExport := Some (- 1)\<rparr>"

subsection \<open>Hourly averages, in the words of the specification\<close>

text \<open>
  Section 4.3: the average of a quantity over an hour of the day is its sum over the
  records of that hour divided by the number of those records, and 0 for an hour without
  records.
\<close>

definition hourRecords :: "int \<Rightarrow> SolarDataPoint list \<Rightarrow> SolarDataPoint list" where
  "hourRecords h data = filter (\<lambda>p. hour p = h) data"

definition hourMean :: "(SolarDataPoint \<Rightarrow> real) \<Rightarrow> int \<Rightarrow> SolarDataPoint list \<Rightarrow> real" where
  "hourMean f h data =
     (if length (hourRecords h data) = 0 then 0
      else sum_list (map f (hourRecords h data)) / real (length (hourRecords h data)))"

text \<open>An entry of the hourly map after the quantities of some records were added to it.\<close>

definition hourlyPlus :: "HourlyAverage \<Rightarrow> SolarDataPoint list \<Rightarrow> HourlyAverage" where
  "hourlyPlus a rs =
     a\<lparr>hourly_solarProduction := hourly_solarProduction a + (\<Sum>p\<leftarrow>rs. solarProduction p),
       hourly_energyDemand := hourly_energyDemand a + (\<Sum>p\<leftarrow>rs. energyDemand p),
       hourly_gridImport := hourly_gridImport a + (\<Sum>p\<leftarrow>rs. orZero (gridImport p)),
       hourly_excessExport := hourly_excessExport a + (\<Sum>p\<leftarrow>rs. orZero (excessExport p))\<rparr>"

subsection \<open>Days of a collection\<close>



subsection \<open>Daily sums, in the words of the specification\<close>



subsection \<open>Inputs on which the double-precision results are computed\<close>



subsection \<open>Cost accounting without rounding\<close>



section \<open>Theorems\<close>

subsection \<open>Association lists over a list of keys, and maxima\<close>

lemma AList_update_tabulate:
  assumes "distinct ks" "k \<in> set ks"
  shows "AList.update k v (map (\<lambda>h. (h, F h)) ks) = map (\<lambda>h. (h, (F(k := v)) h)) ks"
  using assms by (induction ks) auto

lemma map_of_tabulate:
  "k \<in> set ks \<Longrightarrow> map_of (map (\<lambda>h. (h, F h)) ks) k = Some (F k)"
  by (induction ks) auto

lemma map_of_tabulate_None:
  "k \<notin> set ks \<Longrightarrow> map_of (map (\<lambda>h. (h, F h)) ks) k = None"
  by (induction ks) auto


lemma foldl_max_Max:
  fixes a :: real
  shows "foldl max a xs = Max (set (a # xs))"
proof -
  have "(\<lambda>x s. max s x) = (max :: real \<Rightarrow> real \<Rightarrow> real)"
    by (intro ext) (rule max.commute)
  then show ?thesis
    using Max.set_eq_fold [of a xs] by (simp add: foldl_conv_fold)
qed

lemma orZero_Some: "orZero (Some v) = v"
  by (simp add: orZero_def)

subsection \<open>Derived metrics\<close>

text \<open>
  Claim C1. For every record, \<^const>\<open>calculateDerivedMetrics\<close> returns the record with
  \<open>netEnergy = solarProduction - energyDemand\<close>, \<open>gridImport = max 0 (- netEnergy)\<close> and
  \<open>excessExport = max 0 netEnergy\<close>, every other field unchanged. Consequently both
  derived flows are zero exactly when production equals demand, and otherwise exactly
  one of them is nonzero.
\<close>

theorem calculateDerivedMetrics_spec:
  "calculateDerivedMetrics p =
     p\<lparr>netEnergy := Some (solarProduction p - energyDemand p),
       gridImport := Some (max 0 (- (solarProduction p - energyDemand p))),
       excessExport := Some (max 0 (solarProduction p - energyDemand p))\<rparr>
   \<and> ((orZero (gridImport (calculateDerivedMetrics p)) = 0
        \<and> orZero (excessExport (calculateDerivedMetrics p)) = 0)
       \<longleftrightarrow> solarProduction p = energyDemand p)
   \<and> (solarProduction p \<noteq> energyDemand p \<longrightarrow>
        (orZero (gridImport (calculateDerivedMetrics p)) \<noteq> 0)
        \<noteq> (orZero (excessExport (calculateDerivedMetrics p)) \<noteq> 0))"
  by (auto simp: calculateDerivedMetrics_def orZero_def Let_def max_def)

theorem calculateDerivedMetrics_spec_witness:
  "calculateDerivedMetrics (samplePoint ''2025-01-01'' 10 5 2) =
     (samplePoint ''2025-01-01'' 10 5 2)
       \<lparr>netEnergy := Some 3, gridImport := Some 0, excessExport := Some 3\<rparr>
   \<and> solarProduction (samplePoint ''2025-01-01'' 10 5 2)
       \<noteq> energyDemand (samplePoint ''2025-01-01'' 10 5 2)
   \<and> orZero (gridImport (calculateDerivedMetrics (samplePoint ''2025-01-01'' 10 5 2))) = 0
   \<and> orZero (excessExport (calculateDerivedMetrics (samplePoint ''2025-01-01'' 10 5 2))) \<noteq> 0"
  using calculateDerivedMetrics_spec [of "samplePoint ''2025-01-01'' 10 5 2"]
  by (simp add: samplePoint_def orZero_def)

subsection \<open>Summary\<close>

lemma foldl_summaryStep:
  "foldl summaryStep (a, b, c, d, e, f) data =
     (a + (\<Sum>p\<leftarrow>data. solarProduction p),
      b + (\<Sum>p\<leftarrow>data. energyDemand p),
      c + (\<Sum>p\<leftarrow>data. orZero (gridImport p)),
      d + (\<Sum>p\<leftarrow>data. orZero (excessExport p)),
      foldl max e (map solarProduction data),
      foldl max f (map energyDemand data))"
  by (induction data arbitrary: a b c d e f) (simp_all add: summaryStep_def algebra_simps)

lemma dayCount_card: "dayCount data = max 1 (card (date ` set data))"
proof (cases "data = []")
  case True
  then show ?thesis by (simp add: dayCount_def)
next
  case False
  then have "card (date ` set data) > 0" by (simp add: card_gt_0_iff)
  with False show ?thesis
    by (simp add: dayCount_def Let_def length_remdups_card_conv max_def)
qed

text \<open>
  Claim C8. \<^const>\<open>calculateSummary\<close> is total. On the empty collection every field of
  the summary is 0 and the day count is 1. On every collection the day count is the
  number of distinct dates, at least 1; the daily averages are the totals divided by the
  day count, hence 0 when there is no date at all; each percentage is 0 when its
  denominator is 0.
\<close>

theorem calculateSummary_degenerate:
  "calculateSummary [] =
     \<lparr>totalSolarProduction = 0, totalEnergyDemand = 0, totalGridImport = 0,
      totalExcessExport = 0, averageDailySolarProduction = 0, averageDailyEnergyDemand = 0,
      peakSolarProduction = 0, peakEnergyDemand = 0,
      selfConsumptionPercentage = 0, gridDependencyPercentage = 0\<rparr>
   \<and> dayCount [] = 1
   \<and> dayCount data = max 1 (card (date ` set data))
   \<and> averageDailySolarProduction (calculateSummary data)
       = totalSolarProduction (calculateSummary data) / real (dayCount data)
   \<and> averageDailyEnergyDemand (calculateSummary data)
       = totalEnergyDemand (calculateSummary data) / real (dayCount data)
   \<and> (card (date ` set data) = 0 \<longrightarrow>
        averageDailySolarProduction (calculateSummary data) = 0
        \<and> averageDailyEnergyDemand (calculateSummary data) = 0)
   \<and> selfConsumptionPercentage (calculateSummary data)
       = (if totalSolarProduction (calculateSummary data) > 0
          then (totalSolarProduction (calculateSummary data) - totalExcessExport (calculateSummary data))
                 / totalSolarProduction (calculateSummary data) * 100
          else 0)
   \<and> gridDependencyPercentage (calculateSummary data)
       = (if totalEnergyDemand (calculateSummary data) > 0
          then totalGridImport (calculateSummary data) / totalEnergyDemand (calculateSummary data) * 100
          else 0)
   \<and> (totalSolarProduction (calculateSummary data) = 0 \<longrightarrow>
        selfConsumptionPercentage (calculateSummary data) = 0)
   \<and> (totalEnergyDemand (calculateSummary data) = 0 \<longrightarrow>
        gridDependencyPercentage (calculateSummary data) = 0)"
proof -
  have e: "calculateSummary [] =
     \<lparr>totalSolarProduction = 0, totalEnergyDemand = 0, totalGridImport = 0,
      totalExcessExport = 0, averageDailySolarProduction = 0, averageDailyEnergyDemand = 0,
      peakSolarProduction = 0, peakEnergyDemand = 0,
      selfConsumptionPercentage = 0, gridDependencyPercentage = 0\<rparr>"
    by (simp add: calculateSummary_def dayCount_def)
  have d0: "dayCount [] = 1" by (simp add: dayCount_def)
  have emp: "card (date ` set data) = 0 \<Longrightarrow> data = []" by simp
  show ?thesis
    using e d0 dayCount_card [of data] emp
    by (auto simp: calculateSummary_def foldl_summaryStep)
qed

theorem calculateSummary_degenerate_witness:
  "card (date ` set ([] :: SolarDataPoint list)) = 0
   \<and> totalSolarProduction (calculateSummary []) = 0
   \<and> totalEnergyDemand (calculateSummary []) = 0
   \<and> averageDailySolarProduction (calculateSummary []) = 0
   \<and> averageDailyEnergyDemand (calculateSummary []) = 0
   \<and> selfConsumptionPercentage (calculateSummary []) = 0
   \<and> gridDependencyPercentage (calculateSummary []) = 0"
  using calculateSummary_degenerate [of "[]"]
  by simp

subsection \<open>Filtering\<close>

text \<open>
  Claim C3, as the code has it. \<^const>\<open>filterData\<close> keeps exactly the records that pass
  every supplied predicate. The months option constrains the month only when it is
  supplied and not empty: then the month must be a member of the list. An absent months
  option and an empty months list impose no month constraint. The same holds for the
  hours option and the hour. An empty date string counts as absent as well.
\<close>

theorem filterData_membership:
  "filterData data f =
     filter (\<lambda>p. (case startDate f of None \<Rightarrow> True | Some s \<Rightarrow> s = [] \<or> s \<le> date p)
               \<and> (case endDate f of None \<Rightarrow> True | Some e \<Rightarrow> e = [] \<or> date p \<le> e)
               \<and> (case months f of None \<Rightarrow> True | Some ms \<Rightarrow> ms = [] \<or> month p \<in> set ms)
               \<and> (case hours f of None \<Rightarrow> True | Some hs \<Rightarrow> hs = [] \<or> hour p \<in> set hs)
               \<and> (weekdaysOnly f = Some True \<longrightarrow> \<not> isWeekend p)
               \<and> (weekendsOnly f = Some True \<longrightarrow> isWeekend p)) data"
  unfolding filterData_def
  by (rule filter_cong) (auto simp: keepPoint_def split: option.splits)

theorem filterData_membership_witness:
  "filterData derivedSample (noFilters\<lparr>months := Some [1], hours := Some [10, 20], weekdaysOnly := Some True\<rparr>)
     = [derivedSample ! 0, derivedSample ! 2, derivedSample ! 3]
   \<and> filterData derivedSample (noFilters\<lparr>months := Some [2]\<rparr>) = []"
  using filterData_membership [of derivedSample "noFilters\<lparr>months := Some [1], hours := Some [10, 20], weekdaysOnly := Some True\<rparr>"]
    filterData_membership [of derivedSample "noFilters\<lparr>months := Some [2]\<rparr>"]
  by (simp add: derivedSample_def sampleDay1_def sampleDay2_def noFilters_def samplePoint_def calculateDerivedMetrics_def Let_def)

text \<open>
  The claim as first stated fails: with an empty months list (or hours list) the record
  is kept, although it is a member of no list.
\<close>

theorem filterData_empty_months_counterexample:
  "filterData [samplePoint ''2025-01-01'' 10 5 2] (noFilters\<lparr>months := Some []\<rparr>)
     = [samplePoint ''2025-01-01'' 10 5 2]
   \<and> filter (\<lambda>p. month p \<in> set []) [samplePoint ''2025-01-01'' 10 5 2] = []
   \<and> filterData [samplePoint ''2025-01-01'' 10 5 2] (noFilters\<lparr>hours := Some []\<rparr>)
     = [samplePoint ''2025-01-01'' 10 5 2]
   \<and> filter (\<lambda>p. hour p \<in> set []) [samplePoint ''2025-01-01'' 10 5 2] = []"
  by (simp add: filterData_def keepPoint_def noFilters_def)

subsection \<open>Self-sufficiency classification\<close>

lemma selfSufficiencyStep_counts:
  "l_noProductionHours (selfSufficiencyStep l p)
     = l_noProductionHours l + (if hourCategory p = Some NoProduction then 1 else 0)"
  "l_selfSufficientHours (selfSufficiencyStep l p)
     = l_selfSufficientHours l + (if hourCategory p = Some SelfSufficient then 1 else 0)"
  "l_excessProductionHours (selfSufficiencyStep l p)
     = l_excessProductionHours l + (if hourCategory p = Some ExcessProduction then 1 else 0)"
  "l_gridDependentHours (selfSufficiencyStep l p)
     = l_gridDependentHours l + (if hourCategory p = Some GridDependent then 1 else 0)"
  by (simp_all add: selfSufficiencyStep_def hourCategory_def Let_def)

lemma foldl_selfSufficiencyStep_counts:
  "l_noProductionHours (foldl selfSufficiencyStep l data)
     = l_noProductionHours l + length (filter (\<lambda>p. hourCategory p = Some NoProduction) data)"
  "l_selfSufficientHours (foldl selfSufficiencyStep l data)
     = l_selfSufficientHours l + length (filter (\<lambda>p. hourCategory p = Some SelfSufficient) data)"
  "l_excessProductionHours (foldl selfSufficiencyStep l data)
     = l_excessProductionHours l + length (filter (\<lambda>p. hourCategory p = Some ExcessProduction) data)"
  "l_gridDependentHours (foldl selfSufficiencyStep l data)
     = l_gridDependentHours l + length (filter (\<lambda>p. hourCategory p = Some GridDependent) data)"
  by (induction data arbitrary: l) (simp_all add: selfSufficiencyStep_counts)

lemma category_partition:
  assumes "\<forall>p\<in>set data. hourCategory p \<noteq> None"
  shows "length (filter (\<lambda>p. hourCategory p = Some NoProduction) data)
       + length (filter (\<lambda>p. hourCategory p = Some SelfSufficient) data)
       + length (filter (\<lambda>p. hourCategory p = Some ExcessProduction) data)
       + length (filter (\<lambda>p. hourCategory p = Some GridDependent) data) = length data"
  using assms
proof (induction data)
  case Nil
  show ?case by simp
next
  case (Cons p ps)
  then obtain c where "hourCategory p = Some c" by auto
  with Cons show ?case by (cases c) simp_all
qed

lemma nonneg_hourCategory:
  "0 \<le> orZero (gridImport p) \<Longrightarrow> 0 \<le> orZero (excessExport p) \<Longrightarrow> hourCategory p \<noteq> None"
  by (auto simp: hourCategory_def)

text \<open>
  Claim C5, as the code has it. Each of the four counters of
  \<^const>\<open>calculateSelfSufficiency\<close> is the number of records of its category, the
  categories being tried in the order no production, self-sufficient, excess production,
  grid dependent, so that a record is counted at most once. When no record has a negative
  grid import or excess export (as is the case for derived records), every record has a
  category and the four counters add up to the number of records.
\<close>

theorem calculateSelfSufficiency_categories:
  "noProductionHours (calculateSelfSufficiency data)
     = length (filter (\<lambda>p. hourCategory p = Some NoProduction) data)
   \<and> selfSufficientHours (calculateSelfSufficiency data)
     = length (filter (\<lambda>p. hourCategory p = Some SelfSufficient) data)
   \<and> excessProductionHours (calculateSelfSufficiency data)
     = length (filter (\<lambda>p. hourCategory p = Some ExcessProduction) data)
   \<and> gridDependentHours (calculateSelfSufficiency data)
     = length (filter (\<lambda>p. hourCategory p = Some GridDependent) data)
   \<and> hoursCounted (calculateSelfSufficiency data) = length data
   \<and> ((\<forall>p\<in>set data. 0 \<le> orZero (gridImport p) \<and> 0 \<le> orZero (excessExport p)) \<longrightarrow>
        (\<forall>p\<in>set data. hourCategory p \<noteq> None)
        \<and> noProductionHours (calculateSelfSufficiency data)
          + selfSufficientHours (calculateSelfSufficiency data)
          + excessProductionHours (calculateSelfSufficiency data)
          + gridDependentHours (calculateSelfSufficiency data) = length data)"
proof -
  have counts: "noProductionHours (calculateSelfSufficiency data)
       = length (filter (\<lambda>p. hourCategory p = Some NoProduction) data)"
    "selfSufficientHours (calculateSelfSufficiency data)
       = length (filter (\<lambda>p. hourCategory p = Some SelfSufficient) data)"
    "excessProductionHours (calculateSelfSufficiency data)
       = length (filter (\<lambda>p. hourCategory p = Some ExcessProduction) data)"
    "gridDependentHours (calculateSelfSufficiency data)
       = length (filter (\<lambda>p. hourCategory p = Some GridDependent) data)"
    by (simp_all add: calculateSelfSufficiency_def Let_def foldl_selfSufficiencyStep_counts)
  have len: "hoursCounted (calculateSelfSufficiency data) = length data"
    by (simp add: calculateSelfSufficiency_def Let_def)
  have part: "(\<forall>p\<in>set data. 0 \<le> orZero (gridImport p) \<and> 0 \<le> orZero (excessExport p)) \<longrightarrow>
        (\<forall>p\<in>set data. hourCategory p \<noteq> None)
        \<and> noProductionHours (calculateSelfSufficiency data)
          + selfSufficientHours (calculateSelfSufficiency data)
          + excessProductionHours (calculateSelfSufficiency data)
          + gridDependentHours (calculateSelfSufficiency data) = length data"
  proof (intro impI conjI)
    assume nn: "\<forall>p\<in>set data. 0 \<le> orZero (gridImport p) \<and> 0 \<le> orZero (excessExport p)"
    then show all: "\<forall>p\<in>set data. hourCategory p \<noteq> None"
      using nonneg_hourCategory by blast
    show "noProductionHours (calculateSelfSufficiency data)
          + selfSufficientHours (calculateSelfSufficiency data)
          + excessProductionHours (calculateSelfSufficiency data)
          + gridDependentHours (calculateSelfSufficiency data) = length data"
      unfolding counts using category_partition [OF all] .
  qed
  from counts len part show ?thesis by blast
qed

theorem calculateSelfSufficiency_categories_witness:
  "list_all (\<lambda>p. 0 \<le> orZero (gridImport p) \<and> 0 \<le> orZero (excessExport p)) derivedSample
   \<and> map hourCategory derivedSample
       = [Some ExcessProduction, Some ExcessProduction, Some NoProduction, Some ExcessProduction]
   \<and> noProductionHours (calculateSelfSufficiency derivedSample) = 1
   \<and> excessProductionHours (calculateSelfSufficiency derivedSample) = 3
   \<and> noProductionHours (calculateSelfSufficiency derivedSample)
          + selfSufficientHours (calculateSelfSufficiency derivedSample)
          + excessProductionHours (calculateSelfSufficiency derivedSample)
          + gridDependentHours (calculateSelfSufficiency derivedSample) = 4"
proof -
  have nn: "\<forall>p\<in>set derivedSample. 0 \<le> orZero (gridImport p) \<and> 0 \<le> orZero (excessExport p)"
    by (simp add: derivedSample_def sampleDay1_def sampleDay2_def calculateDerivedMetrics_def samplePoint_def Let_def orZero_def)
  have cats: "map hourCategory derivedSample
       = [Some ExcessProduction, Some ExcessProduction, Some NoProduction, Some ExcessProduction]"
    by (simp add: derivedSample_def sampleDay1_def sampleDay2_def calculateDerivedMetrics_def samplePoint_def Let_def orZero_def
        hourCategory_def)
  have len: "length derivedSample = 4" by (simp add: derivedSample_def sampleDay1_def sampleDay2_def)
  have f1: "length (filter (\<lambda>p. hourCategory p = Some NoProduction) derivedSample) = 1"
    by (simp add: derivedSample_def sampleDay1_def sampleDay2_def calculateDerivedMetrics_def samplePoint_def Let_def orZero_def
        hourCategory_def)
  have f3: "length (filter (\<lambda>p. hourCategory p = Some ExcessProduction) derivedSample) = 3"
    by (simp add: derivedSample_def sampleDay1_def sampleDay2_def calculateDerivedMetrics_def samplePoint_def Let_def orZero_def
        hourCategory_def)
  have f0: "filter (\<lambda>p. hourCategory p = Some SelfSufficient) derivedSample = []"
    "filter (\<lambda>p. hourCategory p = Some GridDependent) derivedSample = []"
    by (simp_all add: derivedSample_def sampleDay1_def sampleDay2_def calculateDerivedMetrics_def samplePoint_def Let_def orZero_def
        hourCategory_def)
  from calculateSelfSufficiency_categories [of derivedSample] nn cats len f1 f3 f0
  show ?thesis by (simp add: list_all_iff)
qed

text \<open>
  For arbitrary input the counters need not add up: a record with production, no grid
  import and a negative excess export is counted in no category.
\<close>

theorem calculateSelfSufficiency_any_input_counterexample:
  "noProductionHours (calculateSelfSufficiency [negativeExportPoint])
     + selfSufficientHours (calculateSelfSufficiency [negativeExportPoint])
     + excessProductionHours (calculateSelfSufficiency [negativeExportPoint])
     + gridDependentHours (calculateSelfSufficiency [negativeExportPoint]) = 0
   \<and> hoursCounted (calculateSelfSufficiency [negativeExportPoint]) = 1"
  by (simp add: calculateSelfSufficiency_def selfSufficiencyStep_def negativeExportPoint_def
      samplePoint_def orZero_def Let_def)

subsection \<open>Hourly aggregation\<close>

lemma hourlyStep_tabulate:
  assumes "distinct ks" "hour p \<in> set ks"
  shows "hourlyStep (Some (map (\<lambda>h. (h, A h)) ks, map (\<lambda>h. (h, C h)) ks)) p
         = Some (map (\<lambda>h. (h, if h = hour p then hourlyPlus (A h) [p] else A h)) ks,
                 map (\<lambda>h. (h, if h = hour p then C h + 1 else C h)) ks)"
  using assms
  by (simp add: hourlyStep_def map_of_tabulate AList_update_tabulate hourlyPlus_def fun_upd_def)

lemma hourlyPlus_Cons: "hourlyPlus (hourlyPlus a [p]) rs = hourlyPlus a (p # rs)"
  by (simp add: hourlyPlus_def algebra_simps)

lemma hourlyPlus_Nil: "hourlyPlus a [] = a"
  by (simp add: hourlyPlus_def)

lemma foldl_hourlyStep:
  assumes "distinct ks" "\<forall>p\<in>set data. hour p \<in> set ks"
  shows "foldl hourlyStep (Some (map (\<lambda>h. (h, A h)) ks, map (\<lambda>h. (h, C h)) ks)) data
         = Some (map (\<lambda>h. (h, hourlyPlus (A h) (hourRecords h data))) ks,
                 map (\<lambda>h. (h, C h + length (hourRecords h data))) ks)"
  using assms(2)
proof (induction data arbitrary: A C)
  case Nil
  show ?case by (simp add: hourRecords_def hourlyPlus_Nil)
next
  case (Cons p ps)
  have hp: "hour p \<in> set ks" and rest: "\<forall>q\<in>set ps. hour q \<in> set ks"
    using Cons.prems by simp_all
  show ?case
    unfolding foldl_Cons hourlyStep_tabulate [OF assms(1) hp] Cons.IH [OF rest]
    by (simp add: hourRecords_def hourlyPlus_Cons)
qed

text \<open>
  Claim C2. When every record's hour lies in 0..23, \<^const>\<open>aggregateByHour\<close> returns 24
  entries, one for each hour from 0 to 23 in this order. The entry of an hour carries, for
  each of \<open>solarProduction\<close>, \<open>energyDemand\<close>, \<open>gridImport\<close> and \<open>excessExport\<close>, the
  sum over the records of that hour divided by their number, and 0 in every quantity when
  the hour has no record; its net energy is the difference of the two averages.
\<close>

theorem aggregateByHour_spec:
  assumes "\<forall>p\<in>set data. 0 \<le> hour p \<and> hour p \<le> 23"
  shows "aggregateByHour data =
           Some (map (\<lambda>h. \<lparr>hourly_hour = h,
                           hourly_solarProduction = hourMean solarProduction h data,
                           hourly_energyDemand = hourMean energyDemand h data,
                           hourly_netEnergy = hourMean solarProduction h data - hourMean energyDemand h data,
                           hourly_gridImport = hourMean (\<lambda>p. orZero (gridImport p)) h data,
                           hourly_excessExport = hourMean (\<lambda>p. orZero (excessExport p)) h data\<rparr>)
                     [0..23])"
proof -
  have d: "distinct [0..(23::int)]" by simp
  have r: "\<forall>p\<in>set data. hour p \<in> set [0..23]" using assms by simp
  show ?thesis
    unfolding aggregateByHour_def hourlyInit_def foldl_hourlyStep [OF d r]
    by (simp add: hourlyAverageOf_def map_of_tabulate hourlyPlus_def hourMean_def Let_def
        del: upto.simps)
qed

theorem aggregateByHour_spec_witness:
  "list_all (\<lambda>p. 0 \<le> hour p \<and> hour p \<le> 23) derivedSample
   \<and> map_option length (aggregateByHour derivedSample) = Some 24
   \<and> map_option (map hourly_hour) (aggregateByHour derivedSample) = Some [0..23]
   \<and> map_option (map hourly_solarProduction) (aggregateByHour derivedSample)
       = Some [0, 0, 0, 0, 0, 0, 0, 0, 0, 0, 19 / 4, 6, 0, 0, 0, 0, 0, 0, 0, 0, 0, 0, 0, 0]
   \<and> map_option (map hourly_gridImport) (aggregateByHour derivedSample)
       = Some [0, 0, 0, 0, 0, 0, 0, 0, 0, 0, 0, 0, 0, 0, 0, 0, 0, 0, 0, 0, 4, 0, 0, 0]"
proof -
  have h: "\<forall>p\<in>set derivedSample. 0 \<le> hour p \<and> hour p \<le> 23"
    by (simp add: derivedSample_def sampleDay1_def sampleDay2_def calculateDerivedMetrics_def samplePoint_def Let_def)
  have u: "[0..23] = [0, 1, 2, 3, 4, 5, 6, 7, 8, 9, 10, 11, 12, 13, 14, 15, 16, 17, 18, 19, 20, 21, 22, 23 :: int]"
    by (simp add: upto.simps)
  have m: "hourMean solarProduction k derivedSample =
             (if k = 10 then 19 / 4 else if k = 11 then 6 else 0)"
    "hourMean (\<lambda>p. orZero (gridImport p)) k derivedSample = (if k = 20 then 4 else 0)" for k
    by (simp_all add: hourMean_def hourRecords_def derivedSample_def sampleDay1_def sampleDay2_def calculateDerivedMetrics_def
        samplePoint_def Let_def orZero_def)
  show ?thesis
    using h aggregateByHour_spec [OF h]
    by (simp add: u m list_all_iff)
qed

text \<open>
  The hypothesis on the hours is needed: a record with an hour outside 0..23 makes the
  summing loop read a property of \<^verbatim>\<open>undefined\<close>.
\<close>

lemma foldl_hourlyStep_None: "foldl hourlyStep None data = None"
  by (induction data) (simp_all add: hourlyStep_def)

lemma aggregateByHour_TypeError:
  assumes "\<exists>p\<in>set data. hour p < 0 \<or> 23 < hour p"
  shows "aggregateByHour data = None"
proof -
  from assms obtain xs p ys where split: "data = xs @ p # ys"
    and bad: "hour p < 0 \<or> 23 < hour p" and good: "\<forall>q\<in>set xs. \<not> (hour q < 0 \<or> 23 < hour q)"
    using split_list_first_prop [of data "\<lambda>p. hour p < 0 \<or> 23 < hour p"] by blast
  have d: "distinct [0..(23::int)]" by simp
  have r: "\<forall>q\<in>set xs. hour q \<in> set [0..23]" using good by auto
  have nk: "hour p \<notin> set [0..23]" using bad by auto
  show ?thesis
    unfolding aggregateByHour_def hourlyInit_def split foldl_append foldl_Cons
      foldl_hourlyStep [OF d r]
    by (simp add: hourlyStep_def map_of_tabulate_None [OF nk] foldl_hourlyStep_None del: upto.simps)
qed

subsection \<open>Properties of the rounding\<close>

lemma pow2_powr: "pow2 i = 2 powr of_int i"
  by (simp add: pow2_def powr_int)

lemma pow2_pos: "0 < pow2 i"
  by (simp add: pow2_powr)

lemma pow2_add: "pow2 (i + j) = pow2 i * pow2 j"
  by (simp add: pow2_powr powr_add)

lemma pow2_mono: "i \<le> j \<Longrightarrow> pow2 i \<le> pow2 j"
  by (simp add: pow2_powr)

lemma pow2_nat: "pow2 (int n) = 2 ^ n"
  by (simp add: pow2_def)

lemma roundEven_of_int: "roundEven (of_int k) = k"
  by (simp add: roundEven_def)

lemma frac_bounds: "0 \<le> y - of_int \<lfloor>y\<rfloor> \<and> y - of_int \<lfloor>y\<rfloor> < 1"
  by linarith

lemma roundEven_cases:
  "(y - of_int \<lfloor>y\<rfloor> < 1 / 2 \<and> roundEven y = \<lfloor>y\<rfloor>)
   \<or> (y - of_int \<lfloor>y\<rfloor> > 1 / 2 \<and> roundEven y = \<lfloor>y\<rfloor> + 1)
   \<or> (y - of_int \<lfloor>y\<rfloor> = 1 / 2 \<and> (roundEven y = \<lfloor>y\<rfloor> \<or> roundEven y = \<lfloor>y\<rfloor> + 1))"
  unfolding roundEven_def Let_def by (cases "y - of_int \<lfloor>y\<rfloor> < 1 / 2") auto

lemma roundEven_close: "\<bar>y - of_int (roundEven y)\<bar> \<le> 1 / 2"
proof -
  have b: "0 \<le> y - of_int \<lfloor>y\<rfloor>" "y - of_int \<lfloor>y\<rfloor> < 1" by linarith+
  from roundEven_cases [of y] show ?thesis
  proof (elim disjE conjE)
    assume "y - of_int \<lfloor>y\<rfloor> < 1 / 2" "roundEven y = \<lfloor>y\<rfloor>"
    with b show ?thesis by simp
  next
    assume "y - of_int \<lfloor>y\<rfloor> > 1 / 2" "roundEven y = \<lfloor>y\<rfloor> + 1"
    with b show ?thesis by simp
  next
    assume "y - of_int \<lfloor>y\<rfloor> = 1 / 2" "roundEven y = \<lfloor>y\<rfloor>"
    then show ?thesis by simp
  next
    assume "y - of_int \<lfloor>y\<rfloor> = 1 / 2" "roundEven y = \<lfloor>y\<rfloor> + 1"
    then show ?thesis by simp
  qed
qed

lemma roundEven_nearest:
  assumes "\<bar>y - of_int k\<bar> < 1 / 2"
  shows "roundEven y = k"
proof -
  have c: "\<bar>y - of_int (roundEven y)\<bar> \<le> 1 / 2" by (rule roundEven_close)
  have "\<bar>real_of_int (roundEven y) - real_of_int k\<bar> < 1" using assms c by linarith
  then have "\<bar>roundEven y - k\<bar> < 1" by linarith
  then show ?thesis by linarith
qed

lemma roundEven_mono:
  assumes "x \<le> y"
  shows "roundEven x \<le> roundEven y"
proof (rule ccontr)
  assume "\<not> roundEven x \<le> roundEven y"
  then have gt: "roundEven y + 1 \<le> roundEven x" by simp
  then have r: "real_of_int (roundEven y) + 1 \<le> real_of_int (roundEven x)" by linarith
  have cx: "\<bar>x - of_int (roundEven x)\<bar> \<le> 1 / 2" by (rule roundEven_close)
  have cy: "\<bar>y - of_int (roundEven y)\<bar> \<le> 1 / 2" by (rule roundEven_close)
  have "x = y" using cx cy r assms by linarith
  with gt show False by simp
qed

lemma roundEven_uminus: "roundEven (- y) = - roundEven y"
proof (cases "\<bar>y - of_int (roundEven y)\<bar> < 1 / 2")
  case True
  then have "\<bar>- y - of_int (- roundEven y)\<bar> < 1 / 2" by (simp add: abs_minus_commute)
  then show ?thesis by (rule roundEven_nearest)
next
  case False
  with roundEven_cases [of y] have half: "y - of_int \<lfloor>y\<rfloor> = 1 / 2"
    by (auto; linarith)
  then have y: "y = of_int \<lfloor>y\<rfloor> + 1 / 2" by simp
  have "- y = of_int (- \<lfloor>y\<rfloor> - 1) + 1 / 2" by (subst y) simp
  then have fl: "\<lfloor>- y\<rfloor> = - \<lfloor>y\<rfloor> - 1" by linarith
  have halfm: "- y - of_int \<lfloor>- y\<rfloor> = 1 / 2" unfolding fl using y by simp
  have a: "roundEven y = (if even \<lfloor>y\<rfloor> then \<lfloor>y\<rfloor> else \<lfloor>y\<rfloor> + 1)"
    unfolding roundEven_def Let_def using half by simp
  have b: "roundEven (- y) = (if even \<lfloor>- y\<rfloor> then \<lfloor>- y\<rfloor> else \<lfloor>- y\<rfloor> + 1)"
    unfolding roundEven_def Let_def using halfm by simp
  show ?thesis unfolding a b fl by simp
qed

lemma roundEven_bounds:
  "of_int a \<le> y \<Longrightarrow> a \<le> roundEven y"
  "y \<le> of_int b \<Longrightarrow> roundEven y \<le> b"
  using roundEven_mono [of "of_int a" y] roundEven_mono [of y "of_int b"]
  by (simp_all add: roundEven_of_int)

lemma expo64_uminus: "expo64 (- x) = expo64 x"
  by (simp add: expo64_def)

lemma expo64_ge: "- 1022 \<le> expo64 x"
  by (simp add: expo64_def)

lemma expo64_upper:
  assumes "x \<noteq> 0"
  shows "\<bar>x\<bar> < pow2 (expo64 x + 1)"
proof -
  have pos: "0 < \<bar>x\<bar>" using assms by simp
  have "\<bar>x\<bar> < 2 powr (of_int \<lfloor>log 2 \<bar>x\<bar>\<rfloor> + 1)"
    using floor_log_eq_powr_iff [of "\<bar>x\<bar>" 2 "\<lfloor>log 2 \<bar>x\<bar>\<rfloor>"] pos by simp
  also have "\<dots> \<le> 2 powr (of_int (expo64 x) + 1)"
    by (simp add: expo64_def)
  finally show ?thesis by (simp add: pow2_powr)
qed

lemma expo64_lower:
  assumes "x \<noteq> 0" "- 1022 < expo64 x"
  shows "pow2 (expo64 x) \<le> \<bar>x\<bar>"
proof -
  have pos: "0 < \<bar>x\<bar>" using assms by simp
  have e: "expo64 x = \<lfloor>log 2 \<bar>x\<bar>\<rfloor>" using assms(2) by (simp add: expo64_def max_def split: if_splits)
  have "2 powr of_int \<lfloor>log 2 \<bar>x\<bar>\<rfloor> \<le> \<bar>x\<bar>"
    using floor_log_eq_powr_iff [of "\<bar>x\<bar>" 2 "\<lfloor>log 2 \<bar>x\<bar>\<rfloor>"] pos by simp
  then show ?thesis by (simp add: pow2_powr e)
qed

lemma expo64_mono:
  assumes "0 < x" "x \<le> y"
  shows "expo64 x \<le> expo64 y"
proof -
  have "log 2 \<bar>x\<bar> \<le> log 2 \<bar>y\<bar>" using assms by simp
  then have "\<lfloor>log 2 \<bar>x\<bar>\<rfloor> \<le> \<lfloor>log 2 \<bar>y\<bar>\<rfloor>" by (rule floor_mono)
  then show ?thesis by (simp add: expo64_def)
qed


lemma ulp64_pos: "0 < ulp64 x"
  by (simp add: ulp64_def pow2_pos)

lemma round64_zero: "round64 0 = 0"
  by (simp add: round64_def)

lemma round64_uminus: "round64 (- x) = - round64 x"
  by (simp add: round64_def ulp64_def expo64_uminus roundEven_uminus)

lemma round64_nonneg:
  assumes "0 \<le> x"
  shows "0 \<le> round64 x"
proof (cases "x = 0")
  case True
  then show ?thesis by (simp add: round64_def)
next
  case False
  have "0 \<le> x / ulp64 x" using assms ulp64_pos [of x] by simp
  then have "0 \<le> roundEven (x / ulp64 x)" using roundEven_bounds(1) [of 0] by simp
  then show ?thesis using False ulp64_pos [of x] by (simp add: round64_def)
qed

lemma ulp64_pow53: "pow2 (expo64 x + 1) = ulp64 x * 2 ^ 53"
proof -
  have "pow2 (expo64 x + 1) = 2 powr (of_int (expo64 x - 52) + 53)"
    by (simp add: pow2_powr add.commute)
  also have "\<dots> = 2 powr of_int (expo64 x - 52) * 2 powr 53"
    by (rule powr_add)
  also have "\<dots> = ulp64 x * 2 ^ 53"
    by (simp add: ulp64_def pow2_powr)
  finally show ?thesis .
qed

lemma ulp64_pow52: "pow2 (expo64 x) = ulp64 x * 2 ^ 52"
proof -
  have "pow2 (expo64 x) = 2 powr (of_int (expo64 x - 52) + 52)"
    by (simp add: pow2_powr)
  also have "\<dots> = 2 powr of_int (expo64 x - 52) * 2 powr 52"
    by (rule powr_add)
  also have "\<dots> = ulp64 x * 2 ^ 52"
    by (simp add: ulp64_def pow2_powr)
  finally show ?thesis .
qed

lemma scaled_upper:
  assumes "x \<noteq> 0"
  shows "\<bar>x\<bar> / ulp64 x < 2 ^ 53"
proof -
  have "\<bar>x\<bar> < ulp64 x * 2 ^ 53" using expo64_upper [OF assms] ulp64_pow53 [of x] by simp
  then show ?thesis using ulp64_pos [of x] by (simp add: pos_divide_less_eq mult.commute)
qed

lemma round64_upper:
  assumes "0 < x"
  shows "round64 x \<le> pow2 (expo64 x + 1)"
proof -
  have ne: "x \<noteq> 0" using assms by simp
  have "x / ulp64 x \<le> of_int (2 ^ 53)" using scaled_upper [OF ne] assms by simp
  then have "roundEven (x / ulp64 x) \<le> 2 ^ 53" by (rule roundEven_bounds(2))
  then have "real_of_int (roundEven (x / ulp64 x)) \<le> 2 ^ 53"
    by (metis of_int_le_iff of_int_numeral of_int_power)
  then have "ulp64 x * of_int (roundEven (x / ulp64 x)) \<le> ulp64 x * 2 ^ 53"
    using ulp64_pos [of x] by simp
  then show ?thesis using ne ulp64_pow53 [of x] by (simp add: round64_def)
qed

lemma round64_lower:
  assumes "0 < x" "- 1022 < expo64 x"
  shows "pow2 (expo64 x) \<le> round64 x"
proof -
  have ne: "x \<noteq> 0" using assms by simp
  have p: "pow2 (expo64 x) = ulp64 x * 2 ^ 52" by (rule ulp64_pow52)
  have "ulp64 x * 2 ^ 52 \<le> x" using expo64_lower [OF ne assms(2)] assms(1) p by simp
  then have "of_int (2 ^ 52) \<le> x / ulp64 x"
    using ulp64_pos [of x] by (simp add: pos_le_divide_eq mult.commute)
  then have "2 ^ 52 \<le> roundEven (x / ulp64 x)" by (rule roundEven_bounds(1))
  then have "2 ^ 52 \<le> real_of_int (roundEven (x / ulp64 x))"
    by (metis of_int_le_iff of_int_numeral of_int_power)
  then have "ulp64 x * 2 ^ 52 \<le> ulp64 x * of_int (roundEven (x / ulp64 x))"
    using ulp64_pos [of x] by simp
  then show ?thesis using ne p by (simp add: round64_def)
qed

lemma round64_mono_pos:
  assumes "0 < x" "x \<le> y"
  shows "round64 x \<le> round64 y"
proof (cases "expo64 x = expo64 y")
  case True
  then have u: "ulp64 x = ulp64 y" by (simp add: ulp64_def)
  have "x / ulp64 y \<le> y / ulp64 y" using assms ulp64_pos [of y] by (simp add: divide_right_mono)
  then have "roundEven (x / ulp64 y) \<le> roundEven (y / ulp64 y)" by (rule roundEven_mono)
  then have "ulp64 y * of_int (roundEven (x / ulp64 y)) \<le> ulp64 y * of_int (roundEven (y / ulp64 y))"
    using ulp64_pos [of y] by simp
  then show ?thesis using assms u by (simp add: round64_def)
next
  case False
  then have lt: "expo64 x + 1 \<le> expo64 y" using expo64_mono [OF assms] by simp
  then have n: "- 1022 < expo64 y" using expo64_ge [of x] by simp
  have "round64 x \<le> pow2 (expo64 x + 1)" using assms(1) by (rule round64_upper)
  also have "\<dots> \<le> pow2 (expo64 y)" using lt by (rule pow2_mono)
  also have "\<dots> \<le> round64 y" using assms n by (intro round64_lower) simp_all
  finally show ?thesis .
qed

lemma round64_mono:
  assumes "x \<le> y"
  shows "round64 x \<le> round64 y"
proof -
  consider "0 < x" | "x \<le> 0" "0 \<le> y" | "y < 0" by linarith
  then show ?thesis
  proof cases
    case 1
    then show ?thesis using assms by (rule round64_mono_pos)
  next
    case 2
    have "0 \<le> round64 (- x)" using 2(1) by (intro round64_nonneg) simp
    then have "round64 x \<le> 0" by (simp add: round64_uminus)
    also have "0 \<le> round64 y" using 2(2) by (rule round64_nonneg)
    finally show ?thesis .
  next
    case 3
    have "round64 (- y) \<le> round64 (- x)" using 3 assms by (intro round64_mono_pos) simp_all
    then show ?thesis by (simp add: round64_uminus)
  qed
qed


lemma pow2_less_cancel: "pow2 a < pow2 b \<Longrightarrow> a < b"
  by (simp add: pow2_powr)

lemma pow2_diff: "pow2 (i - j) = pow2 i / pow2 j"
  by (simp add: pow2_powr powr_diff)

lemma round64_grid_pos:
  assumes "0 < k" "k < 2 ^ 53" "- 1074 \<le> j"
  shows "round64 (of_int k * pow2 j) = of_int k * pow2 j"
proof -
  define x where "x = of_int k * pow2 j"
  have pos: "0 < x" using assms(1) pow2_pos [of j] by (simp add: x_def)
  then have ne: "x \<noteq> 0" by simp
  have "real_of_int k < 2 ^ 53" using assms(2)
    by (metis of_int_less_iff of_int_numeral of_int_power)
  then have "x < 2 ^ 53 * pow2 j" using pow2_pos [of j] by (simp add: x_def)
  also have "\<dots> = pow2 (j + 53)" using pow2_add [of j 53] pow2_nat [of 53] by simp
  finally have up: "x < pow2 (j + 53)" .
  have e: "expo64 x \<le> j + 52"
  proof (cases "- 1022 < expo64 x")
    case True
    have "pow2 (expo64 x) \<le> \<bar>x\<bar>" using ne True by (rule expo64_lower)
    then have "pow2 (expo64 x) < pow2 (j + 53)" using up pos by simp
    then have "expo64 x < j + 53" by (rule pow2_less_cancel)
    then show ?thesis by simp
  next
    case False
    then have "expo64 x = - 1022" using expo64_ge [of x] by simp
    then show ?thesis using assms(3) by simp
  qed
  define d where "d = nat (j - (expo64 x - 52))"
  define u where "u = ulp64 x"
  have upos: "0 < u" by (simp add: u_def ulp64_pos)
  have d: "int d = j - (expo64 x - 52)" using e by (simp add: d_def)
  have "pow2 (int d) = pow2 j / u" unfolding d u_def by (simp add: pow2_diff ulp64_def)
  then have pd: "pow2 j = 2 ^ d * u" using upos by (simp add: pow2_nat field_simps)
  have xe: "x = of_int (k * 2 ^ d) * u" unfolding x_def pd by simp
  then have q: "x / u = of_int (k * 2 ^ d)" using upos by simp
  have "round64 x = u * of_int (roundEven (x / u))"
    using ne by (simp add: round64_def u_def)
  also have "\<dots> = u * of_int (k * 2 ^ d)"
    by (simp only: q roundEven_of_int)
  also have "\<dots> = x" using xe by (simp only: mult.commute)
  finally show ?thesis by (simp only: x_def)
qed

lemma round64_grid:
  assumes "\<bar>k\<bar> \<le> 2 ^ 53" "- 1074 \<le> j"
  shows "round64 (of_int k * pow2 j) = of_int k * pow2 j"
proof -
  have p: "round64 (of_int n * pow2 j) = of_int n * pow2 j" if "0 < n" "n \<le> 2 ^ 53" for n
  proof (cases "n = 2 ^ 53")
    case False
    with that show ?thesis by (intro round64_grid_pos assms(2)) simp_all
  next
    case True
    have "of_int n * pow2 j = of_int 1 * pow2 (j + 53)"
      using pow2_add [of j 53] pow2_nat [of 53] True by simp
    moreover have "round64 (of_int 1 * pow2 (j + 53)) = of_int 1 * pow2 (j + 53)"
      using assms(2) by (intro round64_grid_pos) simp_all
    ultimately show ?thesis by simp
  qed
  consider "k = 0" | "0 < k" | "k < 0" by linarith
  then show ?thesis
  proof cases
    case 1
    then show ?thesis by (simp add: round64_zero)
  next
    case 2
    then show ?thesis using assms(1) by (intro p) simp_all
  next
    case 3
    then have "round64 (of_int (- k) * pow2 j) = of_int (- k) * pow2 j"
      using assms(1) by (intro p) simp_all
    then show ?thesis using round64_uminus [of "of_int k * pow2 j"] by simp
  qed
qed

lemma round64_idem: "round64 (round64 x) = round64 x"
proof (cases "x = 0")
  case True
  then show ?thesis by (simp add: round64_zero)
next
  case False
  let ?n = "roundEven (x / ulp64 x)"
  have "\<bar>x\<bar> / ulp64 x < 2 ^ 53" using False by (rule scaled_upper)
  then have b: "x / ulp64 x \<le> of_int (2 ^ 53)" "of_int (- (2 ^ 53)) \<le> x / ulp64 x"
    using ulp64_pos [of x] by (simp_all add: abs_if field_simps split: if_splits)
  have "?n \<le> 2 ^ 53" "- (2 ^ 53) \<le> ?n"
    using roundEven_bounds(2) [OF b(1)] roundEven_bounds(1) [OF b(2)] by simp_all
  then have n: "\<bar>?n\<bar> \<le> 2 ^ 53" by simp
  have j: "- 1074 \<le> expo64 x - 52" using expo64_ge [of x] by simp
  have "round64 x = of_int ?n * pow2 (expo64 x - 52)"
    using False by (simp add: round64_def ulp64_def)
  then show ?thesis using round64_grid [OF n j] by simp
qed




lemma rounding_round64: "rounding round64"
  unfolding rounding_def using round64_zero round64_mono round64_idem by blast

lemma rounding_exact: "rounding (\<lambda>x. x)"
  by (simp add: rounding_def)


subsection \<open>Running totals and the records of a day\<close>

lemma sumR_Nil: "sumR rd [] = 0"
  by (simp add: sumR_def)


lemma exact_simps:
  "exact rd [] \<longleftrightarrow> True"
  "exact rd (v # vs) \<longleftrightarrow> rd v = v \<and> exact rd vs"
  "exact rd (us @ vs) \<longleftrightarrow> exact rd us \<and> exact rd vs"
  by (simp_all add: exact_def)




lemma map_rd_exact: "exact rd (map g xs) \<Longrightarrow> map (\<lambda>p. rd (g p)) xs = map g xs"
  by (induction xs) (simp_all add: exact_simps)










subsection \<open>Daily totals against the totals of the summary\<close>





lemma calculateSummaryR_exact: "calculateSummaryR (\<lambda>x. x) data = calculateSummary data"
proof -
  have "summaryStepR (\<lambda>x. x) = summaryStep"
    by (intro ext) (simp add: summaryStepR_def summaryStep_def split: prod.splits)
  then show ?thesis
    by (simp add: calculateSummaryR_def calculateSummary_def)
qed




subsection \<open>Cost savings\<close>







end
